theory Spec2Isabelle
  imports Main "HOL-Library.Char_ord" "HOL-Library.List_Lexorder"
begin

section \<open>JavaScript values used by the frontend\<close>

text \<open>
  A JavaScript string is modelled as a \<open>string\<close> whose characters are the code points
  below 256. \<open>String.prototype.trim\<close> removes white space and line terminators from both
  ends; below 256 these are TAB, LF, VT, FF, CR, SPACE and NBSP.
\<close>

definition is_whitespace :: "char \<Rightarrow> bool" where
  "is_whitespace c = ((of_char c :: nat) \<in> {9, 10, 11, 12, 13, 32, 160})"

definition trim :: "string \<Rightarrow> string" where
  "trim s = rev (dropWhile is_whitespace (rev (dropWhile is_whitespace s)))"

text \<open>
  A value that may be \<open>undefined\<close>/\<open>null\<close> is an option. A string is truthy when it is
  present and not empty; \<open>a || b\<close> is \<open>a\<close> when \<open>a\<close> is truthy and \<open>b\<close> otherwise.
\<close>

definition truthy :: "string option \<Rightarrow> bool" where
  "truthy v = (case v of None \<Rightarrow> False | Some s \<Rightarrow> s \<noteq> [])"

definition or_else :: "string option \<Rightarrow> string option \<Rightarrow> string option" where
  "or_else a b = (if truthy a then a else b)"

text \<open>\<open>response.data.results || []\<close>: an array is always truthy, a missing field is not.\<close>

definition or_empty :: "'a list option \<Rightarrow> 'a list" where
  "or_empty v = (case v of None \<Rightarrow> [] | Some xs \<Rightarrow> xs)"

datatype json =
    JNull
  | JBool bool
  | JNum int
  | JStr string
  | JArr "json list"
  | JObj "(string \<times> json) list"

fun keys_of :: "json \<Rightarrow> string list" where
  "keys_of (JObj kvs) = map fst kvs"
| "keys_of _ = []"

fun field_of :: "json \<Rightarrow> string \<Rightarrow> json option" where
  "field_of (JObj kvs) k = map_of kvs k"
| "field_of _ k = None"

section \<open>Data exchanged with the backend\<close>

datatype video_kind = Video | Gif

record video =
  video_id :: string
  title :: string
  url :: string
  thumbnail :: "string option"
  duration :: "string option"
  views :: "string option"
  source_name :: string
  kind :: video_kind

record source_info =
  name :: string
  enabled :: bool
  driver_name :: "string option"

text \<open>The part of a successful \<open>/api/search\<close> response the store reads: \<open>data.results\<close>.\<close>

record search_response =
  data_results :: "video list option"

text \<open>The part of a successful \<open>/api/sources\<close> response the store reads: \<open>data.sources\<close>.\<close>

record sources_response =
  data_sources :: "source_info list option"

text \<open>
  A rejected request: \<open>detail\<close> is \<open>error.response?.data?.detail\<close> (absent when any link
  of the chain is missing), \<open>message\<close> is \<open>error.message\<close>.
\<close>

record http_error =
  detail :: "string option"
  message :: "string option"

datatype request = Post string json | Get string

definition API :: "string \<Rightarrow> string" where
  "API BACKEND_URL = BACKEND_URL @ ''/api''"

section \<open>The store of \<open>store/videoStore.js\<close>\<close>

text \<open>
  The seven fields both definitions of the store share form the record \<open>app_store\<close>; the
  standalone module adds \<open>isLoadingSources\<close>. \<open>set({f: v})\<close> is a record update.
\<close>

record app_store =
  results :: "video list"
  selectedVideo :: "video option"
  isLoading :: bool
  error :: "string option"
  searchQuery :: string
  selectedSources :: "string list"
  availableSources :: "source_info list"

record store = app_store +
  isLoadingSources :: bool

definition initial_store :: store where
  "initial_store =
     \<lparr>results = [], selectedVideo = None, isLoading = False, error = None,
      searchQuery = [], selectedSources = [''all''], availableSources = [],
      isLoadingSources = False\<rparr>"

text \<open>
  An asynchronous action runs in two steps: up to the \<open>await\<close> it updates the state and
  issues its request; when the promise settles it updates the state again. The default
  parameter \<open>sources = ['all']\<close> applies when the argument is \<open>undefined\<close>.
\<close>

definition search_body :: "string \<Rightarrow> string list \<Rightarrow> json" where
  "search_body query sources =
     JObj [(''query'', JStr query), (''sources'', JArr (map JStr sources)),
           (''page'', JNum 1), (''limit'', JNum 40)]"

definition searchVideos_begin ::
  "string \<Rightarrow> string \<Rightarrow> string list option \<Rightarrow> store \<Rightarrow> store \<times> request" where
  "searchVideos_begin BACKEND_URL query sources_arg st =
     (let sources = (case sources_arg of None \<Rightarrow> [''all''] | Some s \<Rightarrow> s)
      in (st\<lparr>isLoading := True, error := None, searchQuery := query\<rparr>,
          Post (API BACKEND_URL @ ''/search'') (search_body query sources)))"

definition searchVideos_settle :: "http_error + search_response \<Rightarrow> store \<Rightarrow> store" where
  "searchVideos_settle outcome st =
     (case outcome of
        Inr response \<Rightarrow>
          (let fetchedResults = or_empty (data_results response)
           in st\<lparr>results := fetchedResults, isLoading := False\<rparr>)
      | Inl err \<Rightarrow>
          (let errorMessage =
                 or_else (or_else (detail err) (message err)) (Some ''Search failed'')
           in st\<lparr>error := errorMessage, isLoading := False, results := []\<rparr>))"

definition searchVideos ::
  "string \<Rightarrow> (request \<Rightarrow> http_error + search_response) \<Rightarrow> string \<Rightarrow> string list option
     \<Rightarrow> store \<Rightarrow> store" where
  "searchVideos BACKEND_URL axios query sources_arg st =
     (let (st1, req) = searchVideos_begin BACKEND_URL query sources_arg st
      in searchVideos_settle (axios req) st1)"

definition selectVideo :: "video option \<Rightarrow> store \<Rightarrow> store" where
  "selectVideo v st = st\<lparr>selectedVideo := v\<rparr>"

definition clearResults :: "store \<Rightarrow> store" where
  "clearResults st = st\<lparr>results := [], selectedVideo := None, error := None, searchQuery := []\<rparr>"

definition setLoading :: "bool \<Rightarrow> store \<Rightarrow> store" where
  "setLoading loading st = st\<lparr>isLoading := loading\<rparr>"

definition setError :: "string option \<Rightarrow> store \<Rightarrow> store" where
  "setError e st = st\<lparr>error := e\<rparr>"

definition setSearchQuery :: "string \<Rightarrow> store \<Rightarrow> store" where
  "setSearchQuery query st = st\<lparr>searchQuery := query\<rparr>"

definition setSelectedSources :: "string list \<Rightarrow> store \<Rightarrow> store" where
  "setSelectedSources sources st = st\<lparr>selectedSources := sources\<rparr>"

definition fetchSources_begin :: "string \<Rightarrow> store \<Rightarrow> store \<times> request" where
  "fetchSources_begin BACKEND_URL st =
     (st\<lparr>isLoadingSources := True, error := None\<rparr>, Get (API BACKEND_URL @ ''/sources''))"

definition fetchSources_settle :: "http_error + sources_response \<Rightarrow> store \<Rightarrow> store" where
  "fetchSources_settle outcome st =
     (case outcome of
        Inr response \<Rightarrow>
          (let fetchedSources = or_empty (data_sources response)
           in st\<lparr>availableSources := fetchedSources, isLoadingSources := False\<rparr>)
      | Inl err \<Rightarrow>
          (let errorMessage =
                 or_else (or_else (detail err) (message err)) (Some ''Failed to fetch sources'')
           in st\<lparr>error := errorMessage, isLoadingSources := False\<rparr>))"

definition fetchSources ::
  "string \<Rightarrow> (request \<Rightarrow> http_error + sources_response) \<Rightarrow> store \<Rightarrow> store" where
  "fetchSources BACKEND_URL axios st =
     (let (st1, req) = fetchSources_begin BACKEND_URL st
      in fetchSources_settle (axios req) st1)"

section \<open>The copy of the store at the end of \<open>App.js\<close>\<close>

definition initial_app_store :: app_store where
  "initial_app_store =
     \<lparr>results = [], selectedVideo = None, isLoading = False, error = None,
      searchQuery = [], selectedSources = [''all''], availableSources = []\<rparr>"

definition app_searchVideos_begin ::
  "string \<Rightarrow> string \<Rightarrow> string list option \<Rightarrow> app_store \<Rightarrow> app_store \<times> request" where
  "app_searchVideos_begin BACKEND_URL query sources_arg st =
     (let sources = (case sources_arg of None \<Rightarrow> [''all''] | Some s \<Rightarrow> s)
      in (st\<lparr>isLoading := True, error := None, searchQuery := query\<rparr>,
          Post (API BACKEND_URL @ ''/search'') (search_body query sources)))"

definition app_searchVideos_settle ::
  "http_error + search_response \<Rightarrow> app_store \<Rightarrow> app_store" where
  "app_searchVideos_settle outcome st =
     (case outcome of
        Inr response \<Rightarrow> st\<lparr>results := or_empty (data_results response), isLoading := False\<rparr>
      | Inl err \<Rightarrow>
          st\<lparr>error := or_else (detail err) (Some ''Search failed''), isLoading := False,
             results := []\<rparr>)"

definition app_searchVideos ::
  "string \<Rightarrow> (request \<Rightarrow> http_error + search_response) \<Rightarrow> string \<Rightarrow> string list option
     \<Rightarrow> app_store \<Rightarrow> app_store" where
  "app_searchVideos BACKEND_URL axios query sources_arg st =
     (let (st1, req) = app_searchVideos_begin BACKEND_URL query sources_arg st
      in app_searchVideos_settle (axios req) st1)"

definition app_selectVideo :: "video option \<Rightarrow> app_store \<Rightarrow> app_store" where
  "app_selectVideo v st = st\<lparr>selectedVideo := v\<rparr>"

definition app_clearResults :: "app_store \<Rightarrow> app_store" where
  "app_clearResults st =
     st\<lparr>results := [], selectedVideo := None, error := None, searchQuery := []\<rparr>"

definition app_setLoading :: "bool \<Rightarrow> app_store \<Rightarrow> app_store" where
  "app_setLoading loading st = st\<lparr>isLoading := loading\<rparr>"

definition app_setError :: "string option \<Rightarrow> app_store \<Rightarrow> app_store" where
  "app_setError e st = st\<lparr>error := e\<rparr>"

definition app_setSearchQuery :: "string \<Rightarrow> app_store \<Rightarrow> app_store" where
  "app_setSearchQuery query st = st\<lparr>searchQuery := query\<rparr>"

definition app_setSelectedSources :: "string list \<Rightarrow> app_store \<Rightarrow> app_store" where
  "app_setSelectedSources sources st = st\<lparr>selectedSources := sources\<rparr>"

definition app_fetchSources_request :: "string \<Rightarrow> request" where
  "app_fetchSources_request BACKEND_URL = Get (API BACKEND_URL @ ''/sources'')"

definition app_fetchSources_settle ::
  "http_error + sources_response \<Rightarrow> app_store \<Rightarrow> app_store" where
  "app_fetchSources_settle outcome st =
     (case outcome of
        Inr response \<Rightarrow> st\<lparr>availableSources := or_empty (data_sources response)\<rparr>
      | Inl err \<Rightarrow> st)"

definition app_fetchSources ::
  "string \<Rightarrow> (request \<Rightarrow> http_error + sources_response) \<Rightarrow> app_store \<Rightarrow> app_store" where
  "app_fetchSources BACKEND_URL axios st =
     app_fetchSources_settle (axios (app_fetchSources_request BACKEND_URL)) st"

text \<open>The fields of the standalone store that the copy has too.\<close>

definition shared :: "store \<Rightarrow> app_store" where
  "shared st =
     \<lparr>results = results st, selectedVideo = selectedVideo st, isLoading = isLoading st,
      error = error st, searchQuery = searchQuery st, selectedSources = selectedSources st,
      availableSources = availableSources st\<rparr>"

section \<open>The components of \<open>App.js\<close>\<close>

subsection \<open>SearchBar\<close>

text \<open>
  \<open>handleSubmit\<close> with the text typed into the input and the store's selection: the call
  \<open>onSearch(query, selectedSources)\<close> it makes, if it makes one.
\<close>

definition handleSubmit :: "string \<Rightarrow> string list \<Rightarrow> (string \<times> string list) option" where
  "handleSubmit query sel = (if trim query \<noteq> [] then Some (query, sel) else None)"

text \<open>
  The form's \<open>onSubmit\<close> in \<open>App\<close>, where \<open>onSearch\<close> is \<open>handleSearch\<close> and calls
  \<open>searchVideos(query, sources)\<close>: the store when the handler returns and the request it
  has issued, if any.
\<close>

definition SearchBar_submit :: "string \<Rightarrow> string \<Rightarrow> store \<Rightarrow> store \<times> request option" where
  "SearchBar_submit BACKEND_URL query st =
     (case handleSubmit query (selectedSources st) of
        None \<Rightarrow> (st, None)
      | Some (q, sources) \<Rightarrow>
          (let (st1, req) = searchVideos_begin BACKEND_URL q (Some sources) st
           in (st1, Some req)))"

text \<open>The argument the \<open>onClick\<close> of a source button passes to \<open>setSelectedSources\<close>.\<close>

definition toggled :: "source_info \<Rightarrow> string list \<Rightarrow> string list" where
  "toggled source sel =
     (if ''all'' \<in> set sel then [name source]
      else
        (let newSources =
               (if name source \<in> set sel then filter (\<lambda>s. s \<noteq> name source) sel
                else sel @ [name source])
         in if newSources \<noteq> [] then newSources else [''all'']))"

definition clickAllSources :: "store \<Rightarrow> store" where
  "clickAllSources st = setSelectedSources [''all''] st"

definition clickSource :: "source_info \<Rightarrow> store \<Rightarrow> store" where
  "clickSource source st = setSelectedSources (toggled source (selectedSources st)) st"





subsection \<open>App: what the user and the network can do to the store\<close>

datatype event =
    Mount
  | SourcesSettled "http_error + sources_response"
  | Submit string
  | SearchSettled "http_error + search_response"
  | ClickAllSources
  | ClickSource source_info
  | SelectCard video
  | Back
  | Clear

text \<open>
  \<open>fire\<close> is the store after an event, or \<open>None\<close> when the control of the event is not
  rendered or is disabled in that state: the search bar is rendered while no video is
  selected, its input and submit button are disabled while loading, a source button is
  disabled when its source is, the grid shows cards when not loading, the player has the
  back button, and the clear button needs results.
\<close>

fun fire :: "string \<Rightarrow> event \<Rightarrow> store \<Rightarrow> store option" where
  "fire BACKEND_URL Mount st = Some (fst (fetchSources_begin BACKEND_URL st))"
| "fire BACKEND_URL (SourcesSettled outcome) st = Some (fetchSources_settle outcome st)"
| "fire BACKEND_URL (Submit query) st =
     (if selectedVideo st = None \<and> \<not> isLoading st
      then Some (fst (SearchBar_submit BACKEND_URL query st)) else None)"
| "fire BACKEND_URL (SearchSettled outcome) st = Some (searchVideos_settle outcome st)"
| "fire BACKEND_URL ClickAllSources st =
     (if selectedVideo st = None then Some (clickAllSources st) else None)"
| "fire BACKEND_URL (ClickSource source) st =
     (if selectedVideo st = None \<and> source \<in> set (availableSources st) \<and> enabled source
      then Some (clickSource source st) else None)"
| "fire BACKEND_URL (SelectCard v) st =
     (if selectedVideo st = None \<and> \<not> isLoading st \<and> v \<in> set (results st)
      then Some (selectVideo (Some v) st) else None)"
| "fire BACKEND_URL Back st =
     (if selectedVideo st \<noteq> None then Some (selectVideo None st) else None)"
| "fire BACKEND_URL Clear st =
     (if selectedVideo st = None \<and> results st \<noteq> [] then Some (clearResults st) else None)"

fun run :: "string \<Rightarrow> event list \<Rightarrow> store \<Rightarrow> store option" where
  "run BACKEND_URL [] st = Some st"
| "run BACKEND_URL (e # es) st =
     (case fire BACKEND_URL e st of None \<Rightarrow> None | Some st' \<Rightarrow> run BACKEND_URL es st')"

text \<open>The shape of a selection: the sentinel list, or explicit slugs without the sentinel.\<close>

definition selection_ok :: "string list \<Rightarrow> bool" where
  "selection_ok sel = (sel = [''all''] \<or> (sel \<noteq> [] \<and> ''all'' \<notin> set sel))"

text \<open>An event that settles a request as failed; these are the events that write a
  message into \<open>error\<close>.\<close>

fun reports_failure :: "event \<Rightarrow> bool" where
  "reports_failure (SourcesSettled (Inl err)) = True"
| "reports_failure (SearchSettled (Inl err)) = True"
| "reports_failure _ = False"

text \<open>An event that does not bring a source named like the sentinel into the store.\<close>

fun slugs_only :: "event \<Rightarrow> bool" where
  "slugs_only (SourcesSettled (Inr response)) =
     (''all'' \<notin> set (map name (or_empty (data_sources response))))"
| "slugs_only _ = True"

section \<open>The backend engine\<close>

text \<open>
  The backend (\<open>backend/server.py\<close> and its drivers) is described by the design document
  and by the project's README only; the definitions of this section follow those words.
\<close>

subsection \<open>Data model\<close>

text \<open>Modelled from the spec: the data model of the absent backend, its descriptors,
  requests, keys, results, error taxonomy, driver capability and configuration. Times and
  the TTL are natural numbers of one unit.\<close>

record source_descriptor =
  slug :: string
  driver_label :: string
  is_enabled :: bool

datatype selection = AllEnabled | Slugs "string list"

record search_request =
  req_query :: string
  req_selection :: selection
  req_page :: int
  req_limit :: int

type_synonym search_key = "string \<times> string list \<times> int"

record search_result =
  records :: "video list"
  total_count :: nat
  echoed_page :: int
  sources_searched :: "string list"

datatype search_error = InvalidRequest | UnknownSource

datatype source_failure = FetchFailed string | ExtractionFailed

record driver =
  buildRequestTarget :: "string \<Rightarrow> int \<Rightarrow> string"
  extract_records :: "string \<Rightarrow> source_failure + video list"

record config =
  per_source_timeout :: nat
  attempt_budget :: nat
  capacity :: nat
  ttl :: nat

text \<open>Modelled from the spec: the \<open>CacheEntry\<close> store of the absent backend. An entry is
  a key with its result and creation time; the list is ordered from the most recently
  accessed entry to the least recently accessed one.\<close>

type_synonym cache = "(search_key \<times> search_result \<times> nat) list"

subsection \<open>SourceRegistry\<close>

text \<open>Modelled from the spec: \<open>SourceRegistry.resolve\<close> of the absent backend, the sorted
  set of enabled slugs, all of them for the sentinel and those of an explicit selection
  otherwise, unknown and disabled slugs dropped.\<close>

definition resolve :: "source_descriptor list \<Rightarrow> selection \<Rightarrow> string list" where
  "resolve registry sel =
     sort (remdups (map slug (filter
       (\<lambda>d. is_enabled d \<and> (case sel of AllEnabled \<Rightarrow> True | Slugs xs \<Rightarrow> slug d \<in> set xs))
       registry)))"

text \<open>Modelled from the spec: the order in which the absent orchestrator joins its source
  tasks, the resolved slugs in registration order.\<close>

definition registration_order :: "source_descriptor list \<Rightarrow> string list \<Rightarrow> string list" where
  "registration_order registry slugs =
     remdups (filter (\<lambda>s. s \<in> set slugs) (map slug registry))"

subsection \<open>ResultCache\<close>

text \<open>Modelled from the spec: \<open>ResultCache.get\<close> of the absent backend. A key never stored
  is absent; an entry older than the TTL is absent and is removed by the access that finds
  it; a hit becomes the most recently accessed entry.\<close>

definition cache_get ::
  "config \<Rightarrow> nat \<Rightarrow> cache \<Rightarrow> search_key \<Rightarrow> search_result option \<times> cache" where
  "cache_get cfg now c k =
     (case map_of c k of
        None \<Rightarrow> (None, c)
      | Some (r, created) \<Rightarrow>
          if ttl cfg < now - created then (None, filter (\<lambda>e. fst e \<noteq> k) c)
          else (Some r, (k, r, created) # filter (\<lambda>e. fst e \<noteq> k) c))"

text \<open>Modelled from the spec: \<open>ResultCache.put\<close> of the absent backend. The entry replaces
  any entry of its key and becomes the most recently accessed one; the least recently
  accessed entries beyond the capacity are evicted.\<close>

definition cache_put ::
  "config \<Rightarrow> nat \<Rightarrow> cache \<Rightarrow> search_key \<Rightarrow> search_result \<Rightarrow> cache" where
  "cache_put cfg now c k r = take (capacity cfg) ((k, r, now) # filter (\<lambda>e. fst e \<noteq> k) c)"

subsection \<open>SearchOrchestrator\<close>

text \<open>Modelled from the spec: the lower-casing of the query in a key of the absent
  orchestrator, on the letters A to Z.\<close>

definition lower_char :: "char \<Rightarrow> char" where
  "lower_char c =
     (if CHR ''A'' \<le> c \<and> c \<le> CHR ''Z'' then char_of (of_char c + (32::nat)) else c)"

text \<open>Modelled from the spec: the request validation of the absent orchestrator, which
  rejects an empty query and a non-positive page or limit.\<close>

definition valid_request :: "search_request \<Rightarrow> bool" where
  "valid_request req = (trim (req_query req) \<noteq> [] \<and> 0 < req_page req \<and> 0 < req_limit req)"

text \<open>Modelled from the spec: the \<open>SearchKey\<close> of a request, the lower-cased trimmed query,
  the sorted resolved slugs and the page.\<close>

definition search_key_of :: "source_descriptor list \<Rightarrow> search_request \<Rightarrow> search_key" where
  "search_key_of registry req =
     (map lower_char (trim (req_query req)), resolve registry (req_selection req),
      req_page req)"

text \<open>Modelled from the spec: one source task of the absent orchestrator. It builds the
  target with the slug's driver, fetches it with the FetchClient (given here as the function
  \<open>fetch\<close> of address, attempt budget and timeout) and extracts the records; a failure of
  the fetch or of the extraction is the failure of the source.\<close>

definition query_source ::
  "config \<Rightarrow> (string \<Rightarrow> driver) \<Rightarrow> (string \<Rightarrow> nat \<Rightarrow> nat \<Rightarrow> source_failure + string)
     \<Rightarrow> search_request \<Rightarrow> string \<Rightarrow> source_failure + video list" where
  "query_source cfg drivers fetch req s =
     (case fetch (buildRequestTarget (drivers s) (req_query req) (req_page req))
                 (attempt_budget cfg) (per_source_timeout cfg) of
        Inl failure \<Rightarrow> Inl failure
      | Inr content \<Rightarrow> extract_records (drivers s) content)"

text \<open>Modelled from the spec: \<open>SearchOrchestrator.search\<close> of the absent backend, steps 1
  to 6 of its algorithm. The result comes with the cache after the call and with the list
  of addresses handed to the FetchClient during the call.\<close>

definition search ::
  "config \<Rightarrow> source_descriptor list \<Rightarrow> (string \<Rightarrow> driver)
     \<Rightarrow> (string \<Rightarrow> nat \<Rightarrow> nat \<Rightarrow> source_failure + string) \<Rightarrow> nat \<Rightarrow> cache
     \<Rightarrow> search_request \<Rightarrow> search_error + (search_result \<times> cache \<times> string list)" where
  "search cfg registry drivers fetch now c req =
     (if \<not> valid_request req then Inl InvalidRequest
      else
        (let key = search_key_of registry req in
         case cache_get cfg now c key of
           (Some hit, c1) \<Rightarrow> Inr (hit, c1, [])
         | (None, c1) \<Rightarrow>
             (let slugs = registration_order registry (resolve registry (req_selection req));
                  outcomes = map (\<lambda>s. (s, query_source cfg drivers fetch req s)) slugs;
                  contributed =
                    concat (map (\<lambda>(s, out). case out of Inl _ \<Rightarrow> [] | Inr vs \<Rightarrow> vs) outcomes);
                  searched = map fst (filter (\<lambda>(s, out). \<not> isl out) outcomes);
                  result =
                    \<lparr>records = take (nat (req_limit req)) contributed,
                     total_count = length contributed,
                     echoed_page = req_page req,
                     sources_searched = searched\<rparr>
              in Inr (result, cache_put cfg now c1 key result,
                      map (\<lambda>s. buildRequestTarget (drivers s) (req_query req) (req_page req))
                          slugs))))"

section \<open>Sample values\<close>

definition sample_video :: video where
  "sample_video =
     \<lparr>video_id = ''alpha1'', title = ''A cat'', url = ''https://example.org/v/1'',
      thumbnail = None, duration = Some ''10:30'', views = None,
      source_name = ''Alpha'', kind = Video\<rparr>"

definition network_error :: http_error where
  "network_error = \<lparr>detail = None, message = Some ''Network Error''\<rparr>"

definition sample_sources :: "source_info list" where
  "sample_sources =
     [\<lparr>name = ''alpha'', enabled = True, driver_name = Some ''Alpha''\<rparr>,
      \<lparr>name = ''beta'', enabled = False, driver_name = None\<rparr>]"

definition alpha_source :: source_info where
  "alpha_source = \<lparr>name = ''alpha'', enabled = True, driver_name = Some ''Alpha''\<rparr>"

definition beta_source :: source_info where
  "beta_source = \<lparr>name = ''beta'', enabled = True, driver_name = Some ''Beta''\<rparr>"

definition sentinel_named_source :: source_info where
  "sentinel_named_source = \<lparr>name = ''all'', enabled = True, driver_name = Some ''All''\<rparr>"

definition sample_config :: config where
  "sample_config = \<lparr>per_source_timeout = 10, attempt_budget = 3, capacity = 2, ttl = 300\<rparr>"

definition sample_registry :: "source_descriptor list" where
  "sample_registry =
     [\<lparr>slug = ''beta'', driver_label = ''Beta'', is_enabled = True\<rparr>,
      \<lparr>slug = ''alpha'', driver_label = ''Alpha'', is_enabled = True\<rparr>]"

definition synthetic :: "string \<Rightarrow> video list" where
  "synthetic s =
     map (\<lambda>i. \<lparr>video_id = s @ i, title = ''Clip '' @ i, url = ''https://'' @ s @ ''.example/'' @ i,
               thumbnail = None, duration = None, views = None, source_name = s, kind = Video\<rparr>)
         [''1'', ''2'', ''3'']"

definition sample_drivers :: "string \<Rightarrow> driver" where
  "sample_drivers s =
     \<lparr>buildRequestTarget = (\<lambda>q p. ''https://'' @ s @ ''.example/?q='' @ q),
      extract_records = (\<lambda>content. Inr (synthetic s))\<rparr>"

definition working_fetch :: "string \<Rightarrow> nat \<Rightarrow> nat \<Rightarrow> source_failure + string" where
  "working_fetch address budget timeout = Inr ''<html></html>''"

definition failing_fetch :: "string \<Rightarrow> nat \<Rightarrow> nat \<Rightarrow> source_failure + string" where
  "failing_fetch address budget timeout = Inl (FetchFailed ''timed out'')"

definition sample_request :: search_request where
  "sample_request = \<lparr>req_query = ''Test'', req_selection = AllEnabled, req_page = 1, req_limit = 5\<rparr>"

definition blank_request :: search_request where
  "blank_request = \<lparr>req_query = ''  '', req_selection = AllEnabled, req_page = 1, req_limit = 5\<rparr>"

section \<open>Properties of the frontend store\<close>

subsection \<open>Auxiliary facts\<close>

text \<open>What the run of events keeps true of the store when no source is named like the
  sentinel.\<close>

definition store_ok :: "store \<Rightarrow> bool" where
  "store_ok st =
     (selection_ok (selectedSources st) \<and> ''all'' \<notin> set (map name (availableSources st)))"

lemma or_else_fallback: "b \<noteq> [] \<Longrightarrow> \<exists>m. or_else a (Some b) = Some m \<and> m \<noteq> []"
  by (cases a) (auto simp: or_else_def truthy_def)

lemma dropWhile_all_iff: "(\<forall>x\<in>set (dropWhile P xs). P x) \<longleftrightarrow> dropWhile P xs = []"
proof (cases "dropWhile P xs")
  case Nil
  then show ?thesis by (auto dest: set_dropWhileD)
next
  case (Cons a as)
  then have "\<not> P a"
    using hd_dropWhile [of P xs] by simp
  with Cons show ?thesis by auto
qed

lemma trim_empty_iff: "trim s = [] \<longleftrightarrow> (\<forall>c\<in>set s. is_whitespace c)"
proof -
  have "trim s = [] \<longleftrightarrow> (\<forall>c\<in>set (dropWhile is_whitespace s). is_whitespace c)"
    by (simp add: trim_def)
  then show ?thesis
    by (simp add: dropWhile_all_iff)
qed

lemma toggled_ok:
  assumes "selection_ok sel" and "name source \<noteq> ''all''"
  shows "selection_ok (toggled source sel)"
proof (cases "''all'' \<in> set sel")
  case True
  with assms show ?thesis by (simp add: toggled_def selection_ok_def)
next
  case False
  with assms show ?thesis
    by (auto simp: toggled_def selection_ok_def Let_def)
qed

lemma fire_store_ok:
  assumes "fire B e st = Some st'" and "slugs_only e" and "store_ok st"
  shows "store_ok st'"
proof (cases e)
  case (SourcesSettled outcome)
  with assms show ?thesis
    by (cases outcome) (auto simp: store_ok_def fetchSources_settle_def)
next
  case (ClickSource source)
  with assms have src: "source \<in> set (availableSources st)"
    and st': "st' = clickSource source st"
    by (auto split: if_splits)
  from src assms(3) have "name source \<noteq> ''all''"
    by (force simp: store_ok_def)
  with assms(3) have "selection_ok (toggled source (selectedSources st))"
    by (simp add: toggled_ok store_ok_def)
  with assms(3) st' show ?thesis
    by (simp add: store_ok_def clickSource_def setSelectedSources_def)
next
  case (Submit query)
  with assms show ?thesis
    by (auto simp: store_ok_def SearchBar_submit_def handleSubmit_def searchVideos_begin_def
        split: if_splits)
qed (use assms in \<open>auto simp: store_ok_def fetchSources_begin_def searchVideos_settle_def
      clickAllSources_def setSelectedSources_def selectVideo_def clearResults_def
      selection_ok_def split: if_splits sum.splits\<close>)

lemma run_store_ok:
  "run B es st = Some st' \<Longrightarrow> list_all slugs_only es \<Longrightarrow> store_ok st \<Longrightarrow> store_ok st'"
proof (induction es arbitrary: st)
  case Nil
  then show ?case by simp
next
  case (Cons e es)
  then obtain st1 where f: "fire B e st = Some st1" and r: "run B es st1 = Some st'"
    by (auto split: option.splits)
  from f Cons.prems have "store_ok st1"
    by (auto intro: fire_store_ok)
  with r Cons show ?case by simp
qed

lemma fire_keeps_error_null:
  assumes "fire B e st = Some st'" and "\<not> reports_failure e" and "error st = None"
  shows "error st' = None"
proof (cases e)
  case (SourcesSettled outcome)
  with assms show ?thesis
    by (cases outcome) (auto simp: fetchSources_settle_def)
next
  case (SearchSettled outcome)
  with assms show ?thesis
    by (cases outcome) (auto simp: searchVideos_settle_def)
next
  case (Submit query)
  with assms show ?thesis
    by (auto simp: SearchBar_submit_def handleSubmit_def searchVideos_begin_def
        split: if_splits)
qed (use assms in \<open>auto simp: fetchSources_begin_def clickAllSources_def clickSource_def
      setSelectedSources_def selectVideo_def clearResults_def split: if_splits\<close>)

lemma run_keeps_error_null:
  "run B es st = Some st' \<Longrightarrow> list_all (\<lambda>e. \<not> reports_failure e) es \<Longrightarrow> error st = None
     \<Longrightarrow> error st' = None"
proof (induction es arbitrary: st)
  case Nil
  then show ?case by simp
next
  case (Cons e es)
  then obtain st1 where f: "fire B e st = Some st1" and r: "run B es st1 = Some st'"
    by (auto split: option.splits)
  from f Cons.prems have "error st1 = None"
    by (auto intro: fire_keeps_error_null)
  with r Cons show ?case by simp
qed

subsection \<open>The search action\<close>

text \<open>
  C1. Every invocation of \<open>searchVideos(query, sources)\<close>, in the standalone store and in
  the copy, posts one body to \<open>/api/search\<close>, the one handed to axios: an object with
  exactly the fields query, sources, page and limit, in which query and sources are the
  arguments (the sentinel list when sources is undefined), page is 1 and limit is 40.
\<close>


theorem searchVideos_request_body:
  "\<exists>body. snd (searchVideos_begin B query sources st) = Post (API B @ ''/search'') body
     \<and> snd (app_searchVideos_begin B query sources st') = Post (API B @ ''/search'') body
     \<and> searchVideos B axios query sources st =
         searchVideos_settle (axios (Post (API B @ ''/search'') body))
           (fst (searchVideos_begin B query sources st))
     \<and> app_searchVideos B axios query sources st' =
         app_searchVideos_settle (axios (Post (API B @ ''/search'') body))
           (fst (app_searchVideos_begin B query sources st'))
     \<and> keys_of body = [''query'', ''sources'', ''page'', ''limit'']
     \<and> field_of body ''query'' = Some (JStr query)
     \<and> field_of body ''sources'' =
         Some (JArr (map JStr (case sources of None \<Rightarrow> [''all''] | Some s \<Rightarrow> s)))
     \<and> field_of body ''page'' = Some (JNum 1)
     \<and> field_of body ''limit'' = Some (JNum 40)"
  by (simp add: searchVideos_begin_def app_searchVideos_begin_def searchVideos_def
      app_searchVideos_def search_body_def)

theorem searchVideos_request_body_witness:
  "\<exists>body. snd (searchVideos_begin ''http://localhost:8001'' ''cats'' None initial_store)
            = Post ''http://localhost:8001/api/search'' body
     \<and> keys_of body = [''query'', ''sources'', ''page'', ''limit'']
     \<and> field_of body ''sources'' = Some (JArr [JStr ''all''])
     \<and> field_of body ''page'' = Some (JNum 1)
     \<and> field_of body ''limit'' = Some (JNum 40)"
  using searchVideos_request_body [of "''http://localhost:8001''" "''cats''" None initial_store
      initial_app_store "\<lambda>_. Inr \<lparr>data_results = None\<rparr>"]
  by (auto simp: API_def)

text \<open>
  C9, as stated, fails: the standalone store's \<open>fetchSources\<close> writes the same
  \<open>error\<close> field, and the app starts it on mount. When its request fails while a search
  is in flight, the search that then succeeds completes with its results stored, with
  \<open>isLoading\<close> false, and with the message of the other failure in \<open>error\<close>.
\<close>

theorem searchVideos_error_counterexample:
  "map_option isLoading
     (run ''http://localhost:8001''
        [Mount, Submit ''cats'', SourcesSettled (Inl network_error),
         SearchSettled (Inr \<lparr>data_results = Some [sample_video]\<rparr>)]
        initial_store) = Some False
   \<and> map_option results
     (run ''http://localhost:8001''
        [Mount, Submit ''cats'', SourcesSettled (Inl network_error),
         SearchSettled (Inr \<lparr>data_results = Some [sample_video]\<rparr>)]
        initial_store) = Some [sample_video]
   \<and> map_option error
     (run ''http://localhost:8001''
        [Mount, Submit ''cats'', SourcesSettled (Inl network_error),
         SearchSettled (Inr \<lparr>data_results = Some [sample_video]\<rparr>)]
        initial_store) = Some (Some ''Network Error'')"
  by (simp add: initial_store_def fetchSources_begin_def fetchSources_settle_def
      SearchBar_submit_def handleSubmit_def trim_def is_whitespace_def searchVideos_begin_def
      searchVideos_settle_def or_empty_def or_else_def truthy_def network_error_def)

text \<open>
  C9, amended. \<open>searchVideos\<close> sets \<open>error\<close> to null when it starts. When it
  completes, in whatever state the store then is, \<open>isLoading\<close> is false; if the request
  failed, results is the empty list and error is a message, not null and not empty; if it
  succeeded, results is the \<open>results\<close> field of the response, or the empty list when the
  field is absent, and error is left as it is. So after a successful search error is null
  when the action ran without interruption, and also when no request settled as failed
  between the submission and the completion. All but the last, which is about the app
  around the standalone store, hold in the standalone store and in the copy.
\<close>

theorem searchVideos_settles:
  "error (fst (searchVideos_begin B query sources st)) = None
   \<and> error (fst (app_searchVideos_begin B query sources st')) = None
   \<and> searchVideos B axios query sources st =
       searchVideos_settle (axios (snd (searchVideos_begin B query sources st)))
         (fst (searchVideos_begin B query sources st))
   \<and> app_searchVideos B axios query sources st' =
       app_searchVideos_settle (axios (snd (app_searchVideos_begin B query sources st')))
         (fst (app_searchVideos_begin B query sources st'))
   \<and> isLoading (searchVideos_settle outcome st1) = False
   \<and> isLoading (app_searchVideos_settle outcome st1') = False
   \<and> (\<forall>err. outcome = Inl err \<longrightarrow>
         results (searchVideos_settle outcome st1) = []
         \<and> results (app_searchVideos_settle outcome st1') = []
         \<and> (\<exists>m. error (searchVideos_settle outcome st1) = Some m \<and> m \<noteq> [])
         \<and> (\<exists>m. error (app_searchVideos_settle outcome st1') = Some m \<and> m \<noteq> []))
   \<and> (\<forall>response. outcome = Inr response \<longrightarrow>
         results (searchVideos_settle outcome st1) =
           (case data_results response of None \<Rightarrow> [] | Some vs \<Rightarrow> vs)
         \<and> results (app_searchVideos_settle outcome st1') =
           (case data_results response of None \<Rightarrow> [] | Some vs \<Rightarrow> vs)
         \<and> error (searchVideos_settle outcome st1) = error st1
         \<and> error (app_searchVideos_settle outcome st1') = error st1')
   \<and> (\<forall>response.
         axios (Post (API B @ ''/search'')
                  (search_body query (case sources of None \<Rightarrow> [''all''] | Some s \<Rightarrow> s)))
           = Inr response \<longrightarrow>
         error (searchVideos B axios query sources st) = None
         \<and> error (app_searchVideos B axios query sources st') = None)
   \<and> (\<forall>response.
         trim query \<noteq> [] \<and> fire B (Submit query) st = Some st0
         \<and> run B es st0 = Some st2 \<and> list_all (\<lambda>e. \<not> reports_failure e) es \<longrightarrow>
         error (searchVideos_settle (Inr response) st2) = None)"
proof -
  have fb: "\<And>a. \<exists>m. or_else a (Some ''Search failed'') = Some m \<and> m \<noteq> []"
    by (rule or_else_fallback) simp
  have steps: "isLoading (searchVideos_settle outcome st1) = False
   \<and> isLoading (app_searchVideos_settle outcome st1') = False
   \<and> (\<forall>err. outcome = Inl err \<longrightarrow>
         results (searchVideos_settle outcome st1) = []
         \<and> results (app_searchVideos_settle outcome st1') = []
         \<and> (\<exists>m. error (searchVideos_settle outcome st1) = Some m \<and> m \<noteq> [])
         \<and> (\<exists>m. error (app_searchVideos_settle outcome st1') = Some m \<and> m \<noteq> []))
   \<and> (\<forall>response. outcome = Inr response \<longrightarrow>
         results (searchVideos_settle outcome st1) =
           (case data_results response of None \<Rightarrow> [] | Some vs \<Rightarrow> vs)
         \<and> results (app_searchVideos_settle outcome st1') =
           (case data_results response of None \<Rightarrow> [] | Some vs \<Rightarrow> vs)
         \<and> error (searchVideos_settle outcome st1) = error st1
         \<and> error (app_searchVideos_settle outcome st1') = error st1')"
    using fb
    by (auto simp: searchVideos_settle_def app_searchVideos_settle_def or_empty_def
        split: sum.splits option.splits)
  have whole: "error (fst (searchVideos_begin B query sources st)) = None
   \<and> error (fst (app_searchVideos_begin B query sources st')) = None
   \<and> searchVideos B axios query sources st =
       searchVideos_settle (axios (snd (searchVideos_begin B query sources st)))
         (fst (searchVideos_begin B query sources st))
   \<and> app_searchVideos B axios query sources st' =
       app_searchVideos_settle (axios (snd (app_searchVideos_begin B query sources st')))
         (fst (app_searchVideos_begin B query sources st'))
   \<and> (\<forall>response.
         axios (Post (API B @ ''/search'')
                  (search_body query (case sources of None \<Rightarrow> [''all''] | Some s \<Rightarrow> s)))
           = Inr response \<longrightarrow>
         error (searchVideos B axios query sources st) = None
         \<and> error (app_searchVideos B axios query sources st') = None)"
    by (auto simp: searchVideos_def app_searchVideos_def searchVideos_begin_def
        app_searchVideos_begin_def searchVideos_settle_def app_searchVideos_settle_def)
  have flight: "\<forall>response.
         trim query \<noteq> [] \<and> fire B (Submit query) st = Some st0
         \<and> run B es st0 = Some st2 \<and> list_all (\<lambda>e. \<not> reports_failure e) es \<longrightarrow>
         error (searchVideos_settle (Inr response) st2) = None"
  proof (intro allI impI)
    fix response
    assume h: "trim query \<noteq> [] \<and> fire B (Submit query) st = Some st0
         \<and> run B es st0 = Some st2 \<and> list_all (\<lambda>e. \<not> reports_failure e) es"
    then have "error st0 = None"
      by (auto simp: SearchBar_submit_def handleSubmit_def searchVideos_begin_def
          split: if_splits)
    with h have "error st2 = None"
      using run_keeps_error_null [of B es st0 st2] by blast
    then show "error (searchVideos_settle (Inr response) st2) = None"
      by (simp add: searchVideos_settle_def)
  qed
  from steps whole flight show ?thesis by blast
qed

theorem searchVideos_settles_witness:
  "results (searchVideos_settle (Inl network_error)
              (initial_store\<lparr>results := [sample_video], isLoading := True\<rparr>)) = []
   \<and> (\<exists>m. error (searchVideos_settle (Inl network_error)
              (initial_store\<lparr>results := [sample_video], isLoading := True\<rparr>)) = Some m
          \<and> m \<noteq> [])
   \<and> error (searchVideos_settle (Inr \<lparr>data_results = Some [sample_video]\<rparr>)
              (initial_store\<lparr>error := Some ''Network Error'', isLoading := True\<rparr>))
       = Some ''Network Error''
   \<and> error (searchVideos ''http://localhost:8001''
              (\<lambda>_. Inr \<lparr>data_results = Some [sample_video]\<rparr>) ''cats'' None
              (initial_store\<lparr>error := Some ''old''\<rparr>)) = None
   \<and> (\<exists>st2. run ''http://localhost:8001''
               [Submit ''cats'', Mount, SourcesSettled (Inr \<lparr>data_sources = Some sample_sources\<rparr>),
                ClickAllSources]
               initial_store = Some st2
          \<and> error (searchVideos_settle (Inr \<lparr>data_results = Some [sample_video]\<rparr>) st2) = None)"
proof -
  let ?B = "''http://localhost:8001''"
  let ?ok = "Inr \<lparr>data_results = Some [sample_video]\<rparr> :: http_error + search_response"
  let ?es = "[Mount, SourcesSettled (Inr \<lparr>data_sources = Some sample_sources\<rparr>), ClickAllSources]"
  let ?st0 = "fst (SearchBar_submit ?B ''cats'' initial_store)"
  let ?st2 = "clickAllSources (fetchSources_settle (Inr \<lparr>data_sources = Some sample_sources\<rparr>)
                (fst (fetchSources_begin ?B ?st0)))"
  have t: "trim ''cats'' \<noteq> []"
    by (simp add: trim_def is_whitespace_def)
  have f: "fire ?B (Submit ''cats'') initial_store = Some ?st0"
    by (simp add: initial_store_def)
  have r: "run ?B ?es ?st0 = Some ?st2"
    by (simp add: initial_store_def SearchBar_submit_def handleSubmit_def trim_def
        is_whitespace_def searchVideos_begin_def fetchSources_begin_def fetchSources_settle_def)
  have q: "list_all (\<lambda>e. \<not> reports_failure e) ?es"
    by simp
  have whole: "run ?B (Submit ''cats'' # ?es) initial_store = Some ?st2"
    using f r by simp
  have failed: "results (searchVideos_settle (Inl network_error)
              (initial_store\<lparr>results := [sample_video], isLoading := True\<rparr>)) = []
   \<and> (\<exists>m. error (searchVideos_settle (Inl network_error)
              (initial_store\<lparr>results := [sample_video], isLoading := True\<rparr>)) = Some m
          \<and> m \<noteq> [])"
    using searchVideos_settles [where outcome = "Inl network_error"
        and ?st1.0 = "initial_store\<lparr>results := [sample_video], isLoading := True\<rparr>"]
    by blast
  have kept: "error (searchVideos_settle ?ok
              (initial_store\<lparr>error := Some ''Network Error'', isLoading := True\<rparr>))
       = error (initial_store\<lparr>error := Some ''Network Error'', isLoading := True\<rparr>)"
    using searchVideos_settles [where outcome = ?ok
        and ?st1.0 = "initial_store\<lparr>error := Some ''Network Error'', isLoading := True\<rparr>"]
    by blast
  have atomic: "error (searchVideos ?B (\<lambda>_. ?ok) ''cats'' None
              (initial_store\<lparr>error := Some ''old''\<rparr>)) = None"
    using searchVideos_settles [where B = ?B and axios = "\<lambda>_. ?ok" and query = "''cats''"
        and sources = None and st = "initial_store\<lparr>error := Some ''old''\<rparr>"]
    by blast
  have flight: "error (searchVideos_settle ?ok ?st2) = None"
    using searchVideos_settles [where B = ?B and query = "''cats''" and st = initial_store
        and ?st0.0 = ?st0 and es = ?es and ?st2.0 = ?st2] t f r q
    by blast
  from failed kept atomic whole flight show ?thesis
    by (auto simp del: run.simps fire.simps)
qed

subsection \<open>Frame of the synchronous actions\<close>

text \<open>
  C10. \<open>clearResults\<close> sets results to the empty list, selectedVideo to null, error to
  null and searchQuery to the empty string, and leaves selectedSources, availableSources
  and the loading flags as they are; \<open>selectVideo\<close> sets selectedVideo and leaves every
  other field as it is. Both hold in the standalone store and in the copy.
\<close>

theorem clear_select_frame:
  "results (clearResults st) = [] \<and> selectedVideo (clearResults st) = None
   \<and> error (clearResults st) = None \<and> searchQuery (clearResults st) = []
   \<and> selectedSources (clearResults st) = selectedSources st
   \<and> availableSources (clearResults st) = availableSources st
   \<and> isLoading (clearResults st) = isLoading st
   \<and> isLoadingSources (clearResults st) = isLoadingSources st
   \<and> selectedVideo (selectVideo v st) = v
   \<and> results (selectVideo v st) = results st
   \<and> isLoading (selectVideo v st) = isLoading st
   \<and> error (selectVideo v st) = error st
   \<and> searchQuery (selectVideo v st) = searchQuery st
   \<and> selectedSources (selectVideo v st) = selectedSources st
   \<and> availableSources (selectVideo v st) = availableSources st
   \<and> isLoadingSources (selectVideo v st) = isLoadingSources st
   \<and> results (app_clearResults st') = [] \<and> selectedVideo (app_clearResults st') = None
   \<and> error (app_clearResults st') = None \<and> searchQuery (app_clearResults st') = []
   \<and> selectedSources (app_clearResults st') = selectedSources st'
   \<and> availableSources (app_clearResults st') = availableSources st'
   \<and> isLoading (app_clearResults st') = isLoading st'
   \<and> selectedVideo (app_selectVideo v st') = v
   \<and> results (app_selectVideo v st') = results st'
   \<and> isLoading (app_selectVideo v st') = isLoading st'
   \<and> error (app_selectVideo v st') = error st'
   \<and> searchQuery (app_selectVideo v st') = searchQuery st'
   \<and> selectedSources (app_selectVideo v st') = selectedSources st'
   \<and> availableSources (app_selectVideo v st') = availableSources st'"
  by (simp add: clearResults_def selectVideo_def app_clearResults_def app_selectVideo_def)

subsection \<open>The sources\<close>



subsection \<open>The two definitions of the store\<close>

text \<open>
  C8, as stated, fails: when a search is rejected without a response detail but with an
  error message, the standalone store keeps the message and the copy keeps
  \<open>'Search failed'\<close>.
\<close>

theorem stores_differ_counterexample:
  "shared (searchVideos ''http://localhost:8001''
             (\<lambda>_. Inl \<lparr>detail = None, message = Some ''Network Error''\<rparr>)
             ''cats'' None initial_store)
   \<noteq> app_searchVideos ''http://localhost:8001''
             (\<lambda>_. Inl \<lparr>detail = None, message = Some ''Network Error''\<rparr>)
             ''cats'' None (shared initial_store)"
  by (simp add: shared_def searchVideos_def app_searchVideos_def searchVideos_begin_def
      app_searchVideos_begin_def searchVideos_settle_def app_searchVideos_settle_def
      initial_store_def or_else_def truthy_def)

text \<open>
  C8, amended. On the seven fields they share, the two definitions of the store start
  equal and agree after \<open>selectVideo\<close>, \<open>clearResults\<close> and each setter, for every input.
  \<open>searchVideos\<close> sends the same request in both and leaves the same state whenever the
  request succeeds, or fails with a response detail or without an error message.
  \<open>fetchSources\<close> sends the same request in both and leaves the same state except for
  the \<open>error\<close> field, which only the standalone store writes; after a successful fetch
  that started with a null error the states are the same.
\<close>

theorem stores_agree:
  "shared initial_store = initial_app_store
   \<and> shared (selectVideo v st) = app_selectVideo v (shared st)
   \<and> shared (clearResults st) = app_clearResults (shared st)
   \<and> shared (setLoading loading st) = app_setLoading loading (shared st)
   \<and> shared (setError e st) = app_setError e (shared st)
   \<and> shared (setSearchQuery query st) = app_setSearchQuery query (shared st)
   \<and> shared (setSelectedSources sel st) = app_setSelectedSources sel (shared st)
   \<and> snd (searchVideos_begin B query sources st) =
       snd (app_searchVideos_begin B query sources (shared st))
   \<and> ((\<forall>err. axios (snd (searchVideos_begin B query sources st)) = Inl err \<longrightarrow>
          truthy (detail err) \<or> \<not> truthy (message err)) \<longrightarrow>
        shared (searchVideos B axios query sources st) =
          app_searchVideos B axios query sources (shared st))
   \<and> snd (fetchSources_begin B st) = app_fetchSources_request B
   \<and> (shared (fetchSources B axios' st))\<lparr>error := e\<rparr> =
       (app_fetchSources B axios' (shared st))\<lparr>error := e\<rparr>
   \<and> ((\<exists>response. axios' (Get (API B @ ''/sources'')) = Inr response) \<and> error st = None \<longrightarrow>
        shared (fetchSources B axios' st) = app_fetchSources B axios' (shared st))"
  by (auto simp: shared_def initial_store_def initial_app_store_def selectVideo_def
      app_selectVideo_def clearResults_def app_clearResults_def setLoading_def
      app_setLoading_def setError_def app_setError_def setSearchQuery_def
      app_setSearchQuery_def setSelectedSources_def app_setSelectedSources_def
      searchVideos_def app_searchVideos_def searchVideos_begin_def
      app_searchVideos_begin_def searchVideos_settle_def app_searchVideos_settle_def
      fetchSources_def fetchSources_begin_def fetchSources_settle_def
      app_fetchSources_def app_fetchSources_request_def app_fetchSources_settle_def
      or_else_def split: sum.splits)

theorem stores_agree_witness:
  "shared (searchVideos ''http://localhost:8001''
             (\<lambda>_. Inl \<lparr>detail = Some ''Query must not be empty'', message = Some ''Request failed''\<rparr>)
             ''cats'' None initial_store)
   = app_searchVideos ''http://localhost:8001''
             (\<lambda>_. Inl \<lparr>detail = Some ''Query must not be empty'', message = Some ''Request failed''\<rparr>)
             ''cats'' None (shared initial_store)
   \<and> error (app_searchVideos ''http://localhost:8001''
             (\<lambda>_. Inl \<lparr>detail = Some ''Query must not be empty'', message = Some ''Request failed''\<rparr>)
             ''cats'' None (shared initial_store)) = Some ''Query must not be empty''
   \<and> shared (fetchSources ''http://localhost:8001''
                (\<lambda>_. Inr \<lparr>data_sources = Some []\<rparr>) initial_store)
     = app_fetchSources ''http://localhost:8001''
                (\<lambda>_. Inr \<lparr>data_sources = Some []\<rparr>) (shared initial_store)"
proof -
  let ?fail = "\<lambda>_::request. (Inl \<lparr>detail = Some ''Query must not be empty'',
                  message = Some ''Request failed''\<rparr> :: http_error + search_response)"
  let ?ok = "\<lambda>_::request. (Inr \<lparr>data_sources = Some []\<rparr> :: http_error + sources_response)"
  have h1: "\<forall>err. ?fail (snd (searchVideos_begin ''http://localhost:8001'' ''cats'' None
                initial_store)) = Inl err \<longrightarrow> truthy (detail err) \<or> \<not> truthy (message err)"
    by (auto simp: truthy_def)
  have h2: "(\<exists>response. ?ok (Get (API ''http://localhost:8001'' @ ''/sources'')) = Inr response)
              \<and> error initial_store = None"
    by (simp add: initial_store_def)
  have e: "error (app_searchVideos ''http://localhost:8001'' ?fail ''cats'' None
                    (shared initial_store)) = Some ''Query must not be empty''"
    by (simp add: app_searchVideos_def app_searchVideos_begin_def app_searchVideos_settle_def
        or_else_def truthy_def)
  show ?thesis
    using stores_agree [where B = "''http://localhost:8001''" and axios = ?fail
        and axios' = ?ok and query = "''cats''" and sources = None and st = initial_store]
      h1 h2 e
    by blast
qed

subsection \<open>The search bar\<close>

text \<open>
  C4, as stated, fails: the form tests the trimmed text but passes on the text as typed, so
  a query with a leading and a trailing space reaches the request untrimmed.
\<close>

theorem submit_query_untrimmed_counterexample:
  "snd (SearchBar_submit ''http://localhost:8001'' '' cats '' initial_store) =
     Some (Post ''http://localhost:8001/api/search''
             (JObj [(''query'', JStr '' cats ''), (''sources'', JArr [JStr ''all'']),
                    (''page'', JNum 1), (''limit'', JNum 40)]))
   \<and> trim '' cats '' = ''cats'' \<and> '' cats '' \<noteq> ''cats''"
  by (simp add: SearchBar_submit_def handleSubmit_def searchVideos_begin_def search_body_def
      initial_store_def API_def trim_def is_whitespace_def)

text \<open>
  C4, amended. The search bar submits a search exactly when the trimmed text is not empty,
  and the query of the request is then the text as typed: it is not empty and has a
  character that is not white space.
\<close>

theorem submit_query_nonblank:
  "handleSubmit query sel = (if trim query \<noteq> [] then Some (query, sel) else None)
   \<and> snd (SearchBar_submit B query st) =
       (if trim query \<noteq> []
        then Some (Post (API B @ ''/search'') (search_body query (selectedSources st)))
        else None)
   \<and> field_of (search_body query (selectedSources st)) ''query'' = Some (JStr query)
   \<and> (trim query \<noteq> [] \<longrightarrow> query \<noteq> [] \<and> (\<exists>c\<in>set query. \<not> is_whitespace c))"
  by (auto simp: SearchBar_submit_def handleSubmit_def searchVideos_begin_def search_body_def
      trim_empty_iff)

theorem submit_query_nonblank_witness:
  "snd (SearchBar_submit ''http://localhost:8001'' '' cats '' initial_store) =
     Some (Post ''http://localhost:8001/api/search'' (search_body '' cats '' [''all'']))
   \<and> snd (SearchBar_submit ''http://localhost:8001'' ''  '' initial_store) = None
   \<and> (\<exists>c\<in>set '' cats ''. \<not> is_whitespace c)"
proof -
  have t: "trim '' cats '' \<noteq> []" and b: "trim ''  '' = []"
    by (simp_all add: trim_def is_whitespace_def)
  show ?thesis
    using submit_query_nonblank [of "'' cats ''" "[''all'']" "''http://localhost:8001''" initial_store]
      submit_query_nonblank [of "''  ''" "[''all'']" "''http://localhost:8001''" initial_store] t b
    by (simp add: API_def initial_store_def)
qed

text \<open>
  C3, as stated, fails twice. The action \<open>setSelectedSources\<close> stores whatever list it is
  given, the empty one too. And when the sources endpoint returns a source named like the
  sentinel, the toggle buttons lead from the initial store to a selection that holds a slug
  and the sentinel together.
\<close>

theorem selection_invariant_counterexample:
  "\<not> selection_ok (selectedSources (setSelectedSources [] initial_store))
   \<and> map_option selectedSources
       (run ''http://localhost:8001''
          [SourcesSettled (Inr \<lparr>data_sources = Some [alpha_source, sentinel_named_source]\<rparr>),
           ClickSource alpha_source, ClickSource sentinel_named_source]
          initial_store) = Some [''alpha'', ''all'']
   \<and> \<not> selection_ok [''alpha'', ''all'']"
  by (simp add: selection_ok_def setSelectedSources_def initial_store_def
      fetchSources_settle_def or_empty_def clickSource_def toggled_def
      alpha_source_def sentinel_named_source_def)

text \<open>
  C3, amended. The selection starts as the sentinel list; deselecting the only selected
  slug falls back to the sentinel list; and in every state that the user interface reaches
  from the initial store (where only the buttons of the search bar call
  \<open>setSelectedSources\<close>), provided the sources endpoint never returns a source named like
  the sentinel, the selection is either exactly the sentinel list or a non-empty list
  without the sentinel.
\<close>

theorem selection_invariant:
  "selectedSources initial_store = [''all'']
   \<and> toggled source [name source] = [''all'']
   \<and> (run B es initial_store = Some st \<and> list_all slugs_only es \<longrightarrow>
        selection_ok (selectedSources st))"
proof -
  have "store_ok initial_store"
    by (simp add: store_ok_def initial_store_def selection_ok_def)
  then have "run B es initial_store = Some st \<and> list_all slugs_only es \<longrightarrow>
        selection_ok (selectedSources st)"
    using run_store_ok [of B es initial_store st] by (auto simp: store_ok_def)
  moreover have "toggled source [name source] = [''all'']"
    by (simp add: toggled_def)
  ultimately show ?thesis by (simp add: initial_store_def)
qed

theorem selection_invariant_witness:
  "run ''http://localhost:8001''
     [Mount, SourcesSettled (Inr \<lparr>data_sources = Some [alpha_source, beta_source]\<rparr>),
      ClickSource alpha_source, ClickSource beta_source, ClickSource alpha_source,
      Submit ''cats'', ClickSource beta_source]
     initial_store
   = Some (initial_store\<lparr>isLoading := True, searchQuery := ''cats'',
             availableSources := [alpha_source, beta_source]\<rparr>)
   \<and> selection_ok (selectedSources (initial_store\<lparr>isLoading := True, searchQuery := ''cats'',
             availableSources := [alpha_source, beta_source]\<rparr>))"
proof -
  let ?es = "[Mount, SourcesSettled (Inr \<lparr>data_sources = Some [alpha_source, beta_source]\<rparr>),
      ClickSource alpha_source, ClickSource beta_source, ClickSource alpha_source,
      Submit ''cats'', ClickSource beta_source]"
  have r: "run ''http://localhost:8001'' ?es initial_store
    = Some (initial_store\<lparr>isLoading := True, searchQuery := ''cats'',
             availableSources := [alpha_source, beta_source]\<rparr>)"
    by (simp add: initial_store_def fetchSources_begin_def fetchSources_settle_def
        or_empty_def clickSource_def toggled_def setSelectedSources_def SearchBar_submit_def
        handleSubmit_def trim_def is_whitespace_def searchVideos_begin_def
        alpha_source_def beta_source_def)
  have s: "list_all slugs_only ?es"
    by (simp add: or_empty_def alpha_source_def beta_source_def)
  have "selection_ok (selectedSources (initial_store\<lparr>isLoading := True, searchQuery := ''cats'',
             availableSources := [alpha_source, beta_source]\<rparr>))"
    using selection_invariant [of alpha_source "''http://localhost:8001''" ?es
        "initial_store\<lparr>isLoading := True, searchQuery := ''cats'',
             availableSources := [alpha_source, beta_source]\<rparr>"] r s
    by blast
  with r show ?thesis by blast
qed

section \<open>Properties of the backend engine\<close>

subsection \<open>Auxiliary facts\<close>

lemma registration_order_subset: "set (registration_order registry slugs) \<subseteq> set slugs"
  by (auto simp: registration_order_def)

lemma failed_contribute_nothing:
  "\<forall>s\<in>set xs. isl (f s) \<Longrightarrow>
     concat (map (\<lambda>(s, out). case out of Inl _ \<Rightarrow> [] | Inr vs \<Rightarrow> vs) (map (\<lambda>s. (s, f s)) xs)) = []"
  by (induction xs) (auto split: sum.splits)

lemma failed_not_searched:
  "\<forall>s\<in>set xs. isl (f s) \<Longrightarrow>
     filter (\<lambda>(s, out). \<not> isl out) (map (\<lambda>s. (s, f s)) xs) = []"
  by (induction xs) auto

lemma cache_get_head:
  "\<not> ttl cfg < now - created \<Longrightarrow>
     cache_get cfg now ((k, r, created) # rest) k =
       (Some r, (k, r, created) # filter (\<lambda>e. fst e \<noteq> k) rest)"
  by (simp add: cache_get_def)

lemma cache_get_hit_head:
  assumes "cache_get cfg now c k = (Some r, c1)"
  shows "\<exists>created rest. c1 = (k, r, created) # rest \<and> \<not> ttl cfg < now - created"
  using assms by (auto simp: cache_get_def split: option.splits if_splits)

lemma cache_put_head:
  "0 < capacity cfg \<Longrightarrow> \<exists>rest. cache_put cfg now c k r = (k, r, now) # rest"
  by (cases "capacity cfg") (auto simp: cache_put_def)

subsection \<open>The orchestrator\<close>

text \<open>
  C2. \<open>search\<close> fails with no error other than \<open>InvalidRequest\<close>. For every valid
  request in which all selected sources fail, that is, which is not answered from the cache
  and whose every resolved source fails in its fetch or its extraction, \<open>search\<close> returns
  a result, not an error, with zero records and an empty list of sources searched.
\<close>

theorem search_fails_only_invalid:
  "(\<forall>e. search cfg registry drivers fetch now c req = Inl e \<longrightarrow> e = InvalidRequest)
   \<and> (valid_request req
        \<and> fst (cache_get cfg now c (search_key_of registry req)) = None
        \<and> (\<forall>s\<in>set (resolve registry (req_selection req)).
              isl (query_source cfg drivers fetch req s))
       \<longrightarrow> (\<exists>c' fetched.
              search cfg registry drivers fetch now c req =
                Inr (\<lparr>records = [], total_count = 0, echoed_page = req_page req,
                      sources_searched = []\<rparr>, c', fetched)))"
proof (intro conjI allI impI)
  fix e assume "search cfg registry drivers fetch now c req = Inl e"
  then show "e = InvalidRequest"
    by (auto simp: search_def Let_def split: if_splits prod.splits option.splits)
next
  assume h: "valid_request req
        \<and> fst (cache_get cfg now c (search_key_of registry req)) = None
        \<and> (\<forall>s\<in>set (resolve registry (req_selection req)).
              isl (query_source cfg drivers fetch req s))"
  let ?slugs = "registration_order registry (resolve registry (req_selection req))"
  from h have all: "\<forall>s\<in>set ?slugs. isl (query_source cfg drivers fetch req s)"
    using registration_order_subset by blast
  from h obtain c1 where g: "cache_get cfg now c (search_key_of registry req) = (None, c1)"
    by (cases "cache_get cfg now c (search_key_of registry req)") auto
  show "\<exists>c' fetched.
              search cfg registry drivers fetch now c req =
                Inr (\<lparr>records = [], total_count = 0, echoed_page = req_page req,
                      sources_searched = []\<rparr>, c', fetched)"
    using h g failed_contribute_nothing [OF all] failed_not_searched [OF all]
    by (simp add: search_def Let_def)
qed

theorem search_fails_only_invalid_witness:
  "search sample_config sample_registry sample_drivers working_fetch 0 [] blank_request
     = Inl InvalidRequest
   \<and> (\<exists>c' fetched.
        search sample_config sample_registry sample_drivers failing_fetch 0 [] sample_request =
          Inr (\<lparr>records = [], total_count = 0, echoed_page = 1, sources_searched = []\<rparr>,
               c', fetched))"
proof -
  have bad: "search sample_config sample_registry sample_drivers working_fetch 0 [] blank_request
     = Inl InvalidRequest"
    by (simp add: search_def valid_request_def blank_request_def trim_def is_whitespace_def)
  have v: "valid_request sample_request"
    by (simp add: valid_request_def sample_request_def trim_def is_whitespace_def)
  have miss: "fst (cache_get sample_config 0 [] (search_key_of sample_registry sample_request)) = None"
    by (simp add: cache_get_def)
  have fail: "\<forall>s\<in>set (resolve sample_registry (req_selection sample_request)).
      isl (query_source sample_config sample_drivers failing_fetch sample_request s)"
    by (simp add: query_source_def failing_fetch_def)
  have p: "req_page sample_request = 1"
    by (simp add: sample_request_def)
  show ?thesis
    using search_fails_only_invalid [of sample_config sample_registry sample_drivers
        failing_fetch 0 "[]" sample_request] v miss fail bad p
    by simp
qed

text \<open>
  C6. When a call of \<open>search\<close> has succeeded, the same request issued again back to
  back (at the same clock reading, against the same registry and the cache the first call
  left, whose capacity is not zero) returns the same result and hands no address to the
  FetchClient, whatever the drivers and the network would do.
\<close>

theorem cache_idempotence:
  assumes "0 < capacity cfg"
    and "search cfg registry drivers fetch now c req = Inr (r, c1, fetched)"
  shows "\<exists>c2. search cfg registry drivers' fetch' now c1 req = Inr (r, c2, [])"
proof -
  let ?k = "search_key_of registry req"
  from assms(2) have v: "valid_request req"
    by (auto simp: search_def split: if_splits)
  have "\<exists>created rest. c1 = (?k, r, created) # rest \<and> \<not> ttl cfg < now - created"
  proof (cases "cache_get cfg now c ?k")
    case (Pair found c')
    show ?thesis
    proof (cases found)
      case None
      with Pair assms(2) v obtain result where "r = result"
        and "c1 = cache_put cfg now c' ?k result"
        by (auto simp: search_def Let_def)
      with cache_put_head [OF assms(1), of now c' ?k r] show ?thesis by auto
    next
      case (Some hit)
      with Pair assms(2) v have "r = hit" "c1 = c'"
        by (auto simp: search_def Let_def)
      with Pair Some cache_get_hit_head [of cfg now c ?k r c1] show ?thesis by auto
    qed
  qed
  then obtain created rest where c1: "c1 = (?k, r, created) # rest"
    and fresh: "\<not> ttl cfg < now - created"
    by blast
  show ?thesis
    using v cache_get_head [OF fresh, of ?k r rest] c1
    by (simp add: search_def Let_def)
qed

theorem cache_idempotence_witness:
  "\<exists>r c1 fetched c2.
     search sample_config sample_registry sample_drivers working_fetch 0 [] sample_request
       = Inr (r, c1, fetched)
     \<and> length (records r) = 5 \<and> total_count r = 6 \<and> length (sources_searched r) = 2
     \<and> length fetched = 2
     \<and> search sample_config sample_registry sample_drivers failing_fetch 0 c1 sample_request
       = Inr (r, c2, [])"
proof -
  have cap: "0 < capacity sample_config"
    by (simp add: sample_config_def)
  have "\<exists>r c1 fetched.
     search sample_config sample_registry sample_drivers working_fetch 0 [] sample_request
       = Inr (r, c1, fetched)
     \<and> length (records r) = 5 \<and> total_count r = 6 \<and> length (sources_searched r) = 2
     \<and> length fetched = 2"
    by (simp add: search_def valid_request_def sample_request_def trim_def is_whitespace_def
        cache_get_def Let_def registration_order_def resolve_def sample_registry_def
        query_source_def working_fetch_def sample_drivers_def synthetic_def)
  then obtain r c1 fetched where
    first: "search sample_config sample_registry sample_drivers working_fetch 0 [] sample_request
       = Inr (r, c1, fetched)"
    and shape: "length (records r) = 5 \<and> total_count r = 6 \<and> length (sources_searched r) = 2
     \<and> length fetched = 2"
    by blast
  from cache_idempotence [OF cap first, of sample_drivers failing_fetch]
  obtain c2 where
    "search sample_config sample_registry sample_drivers failing_fetch 0 c1 sample_request
       = Inr (r, c2, [])"
    by blast
  with first shape show ?thesis by blast
qed

end
